theory Spec2Isabelle
  imports Main "HOL-Library.Word" "HOL-Library.Multiset"
begin

section \<open>Errors of the model\<close>

text \<open>
  The sources index vectors with \<open>operator[]\<close> and dereference pointers without a
  check. Where the C++ would read or write outside a vector, or go through a null pointer,
  the model returns an error; \<open>InvalidArguments\<close> is the kernel library refusing its
  arguments.
\<close>

datatype error = OutOfRange | NullPointer | InvalidArguments


section \<open>Registration of the Rayleigh sampling operator (np\_rayleigh\_op.cc)\<close>

text \<open>
  \<open>NumpyRayleighParam\<close> is declared in np\_rayleigh\_op.h; the registration reads one field
  of it, the optional \<open>scale\<close> (\<open>param.scale.has_value()\<close>). The type of the value it
  holds plays no part and is left open. \<open>NodeAttrs\<close> carries the parsed parameter in
  \<open>attrs.parsed\<close>.
\<close>

record 'f NumpyRayleighParam =
  scale :: "'f option"

record 'f NodeAttrs =
  parsed :: "'f NumpyRayleighParam"

definition has_value :: "'a option \<Rightarrow> bool" where
  "has_value x = (x \<noteq> None)"

text \<open>\<open>set_num_inputs\<close> of \<open>_npi_rayleigh\<close>: starts at 1, one less when the scale is given.\<close>

definition npi_rayleigh_num_inputs :: "'f NodeAttrs \<Rightarrow> int" where
  "npi_rayleigh_num_inputs attrs =
     (let param = parsed attrs;
          num_inputs = 1
      in if has_value (scale param) then num_inputs - 1 else num_inputs)"

text \<open>\<open>set_num_outputs(2)\<close> and the \<open>FNumVisibleOutputs\<close> callback.\<close>

definition npi_rayleigh_num_outputs :: int where
  "npi_rayleigh_num_outputs = 2"

definition npi_rayleigh_FNumVisibleOutputs :: "'f NodeAttrs \<Rightarrow> int" where
  "npi_rayleigh_FNumVisibleOutputs attrs = 1"

text \<open>The \<open>FListInputNames\<close> callback recomputes the input count and names the inputs.\<close>

definition npi_rayleigh_FListInputNames :: "'f NodeAttrs \<Rightarrow> string list" where
  "npi_rayleigh_FListInputNames attrs =
     (let param = parsed attrs;
          num_inputs = (1 :: int);
          num_inputs = (if has_value (scale param) then num_inputs - 1 else num_inputs)
      in if num_inputs = 0 then [] else [''input1''])"

text \<open>
  The \<open>FInferType\<close> callback writes \<open>mshadow::kFloat32\<close> into slots 0 and 1 of
  \<open>*out_attrs\<close> and returns true. The enumerator \<open>kFloat32\<close> belongs to mshadow and its
  value is not in the sources, so it is a parameter. \<open>operator[]\<close> of a vector is not
  range checked: a write at an index that the vector does not have is an error of the model.
  The result holds both vectors as the callback leaves them and the value it returns.
\<close>

definition npi_rayleigh_FInferType ::
  "int \<Rightarrow> 'f NodeAttrs \<Rightarrow> int list \<Rightarrow> int list \<Rightarrow> error + (int list \<times> int list \<times> bool)" where
  "npi_rayleigh_FInferType kFloat32 attrs in_attrs out_attrs =
     (if 0 < length out_attrs then
        (let out1 = out_attrs[0 := kFloat32]
         in if 1 < length out1 then
              (let out2 = out1[1 := kFloat32] in Inr (in_attrs, out2, True))
            else Inl OutOfRange)
      else Inl OutOfRange)"

text \<open>\<open>set_num_inputs\<close> and \<open>set_num_outputs\<close> of \<open>_backward_broadcast_rayleigh\<close>.\<close>

definition backward_broadcast_rayleigh_num_inputs :: "'f NodeAttrs \<Rightarrow> int" where
  "backward_broadcast_rayleigh_num_inputs attrs =
     (let param = parsed attrs;
          num_inputs = 5
      in if has_value (scale param) then num_inputs - 1 else num_inputs)"

definition backward_broadcast_rayleigh_num_outputs :: "'f NodeAttrs \<Rightarrow> int" where
  "backward_broadcast_rayleigh_num_outputs attrs =
     (let param = parsed attrs;
          num_outputs = 1
      in if has_value (scale param) then num_outputs - 1 else num_outputs)"


section \<open>Memory descriptors (the part of mkldnn::memory::desc that the adapters use)\<close>

text \<open>
  A memory descriptor has \<open>data.ndims\<close> logical axes. For every axis it holds the
  logical extent (\<open>dims\<close>) and the place of the axis in the physical layout (its stride);
  the model keeps the pair of both for each axis, in logical order, and the data type.
\<close>

record memory_desc =
  axes :: "(int \<times> int) list"
  data_type :: nat

definition ndims :: "memory_desc \<Rightarrow> int" where
  "ndims desc = int (length (axes desc))"

text \<open>
  Modelled from the spec: \<open>mkldnn::memory::desc::permute_axes\<close> is a method of the kernel
  library and is not among the sources. The glossary's logical axis swap and the comment
  above \<open>IOLogicalSwapDesc\<close> (oihw to iohw) give its effect: the logical axes are
  reordered by the permutation, axis \<open>i\<close> of the argument becoming axis
  \<open>permutation[i]\<close> of the result, each axis keeping its extent and its place in the
  physical layout; the data type is inherited. A list that is not a permutation of the
  axis numbers is refused.
\<close>

definition permute_axes :: "memory_desc \<Rightarrow> int list \<Rightarrow> error + memory_desc" where
  "permute_axes desc permutation =
     (let n = length (axes desc)
      in if sort permutation = map int [0..<n] then
           Inr (desc\<lparr>axes :=
                  fold (\<lambda>i new. new[nat (permutation ! i) := axes desc ! i]) [0..<n] (axes desc)\<rparr>)
         else Inl InvalidArguments)"


section \<open>Deconvolution adapters (mkldnn\_deconvolution-inl.h)\<close>

subsection \<open>The logical swap of the channel axes\<close>

text \<open>
  \<open>IOLogicalSwapDesc\<close>: \<open>order\<close> is filled by \<open>std::iota\<close> with 0, 1, ...,
  \<open>offset\<close> is 1 for a grouped weight and 0 otherwise, \<open>std::swap\<close> exchanges
  \<open>order[offset]\<close> and \<open>order[offset + 1]\<close>, and the library permutes the axes.
  \<open>num_group\<close> is a \<open>uint32_t\<close>.
\<close>

definition IOLogicalSwapDesc :: "memory_desc \<Rightarrow> 32 word \<Rightarrow> error + memory_desc" where
  "IOLogicalSwapDesc desc num_group =
     (let order = map int [0..<nat (ndims desc)];
          offset = (if 1 < num_group then 1 else 0 :: nat)
      in if offset + 1 < length order then
           permute_axes desc
             (order[offset + 0 := order ! (offset + 1), offset + 1 := order ! (offset + 0)])
         else Inl OutOfRange)"

text \<open>
  The functions of \<open>NDArray\<close> and of mkldnn\_base-inl.h that the adapters call are not
  among the sources; they are the fields of one parameter. \<open>default_format_desc\<close> stands
  for the constructor call
  \<open>mkldnn::memory::desc(temp.dims(), temp.data_type(), GetDefaultFormat(temp.data.ndims))\<close>,
  \<open>GetMKLDNNData_get_desc\<close> for \<open>arr.GetMKLDNNData()->get_desc()\<close>, and
  \<open>memory_get_desc\<close> reads the descriptor of the \<open>mkldnn::memory\<close> that a pointer
  refers to. A \<open>const mkldnn::memory*\<close> is an address, or \<open>None\<close> for the null pointer.
\<close>

type_synonym memory_ptr = "nat option"

record 'arr NDArray_ops =
  IsMKLDNNData :: "'arr \<Rightarrow> bool"
  GetMKLDNNData_get_desc :: "'arr \<Rightarrow> memory_desc"
  GetWeightDesc :: "'arr \<Rightarrow> 32 word \<Rightarrow> memory_desc"
  default_format_desc :: "memory_desc \<Rightarrow> memory_desc"
  UpdateMKLDNNMemDesc :: "'arr \<Rightarrow> memory_desc \<Rightarrow> 'arr"
  GetMKLDNNDataReorder :: "'arr \<Rightarrow> memory_desc \<Rightarrow> memory_ptr"
  memory_get_desc :: "nat \<Rightarrow> memory_desc"

text \<open>
  \<open>IOLogicalSwapMKLDNNMem\<close> changes the array it is given (through a \<open>const_cast\<close>);
  the model returns the array after the update.
\<close>

definition IOLogicalSwapMKLDNNMem ::
  "'arr NDArray_ops \<Rightarrow> 'arr \<Rightarrow> 32 word \<Rightarrow> error + 'arr" where
  "IOLogicalSwapMKLDNNMem ops arr num_group =
     (let desc = (if IsMKLDNNData ops arr then GetMKLDNNData_get_desc ops arr
                  else (let temp = GetWeightDesc ops arr num_group
                        in default_format_desc ops temp))
      in case IOLogicalSwapDesc desc num_group of
           Inl e \<Rightarrow> Inl e
         | Inr swapped \<Rightarrow> Inr (UpdateMKLDNNMemDesc ops arr swapped))"

definition GetDeconvWeightsDesc ::
  "'arr NDArray_ops \<Rightarrow> 'arr \<Rightarrow> 32 word \<Rightarrow> error + memory_desc" where
  "GetDeconvWeightsDesc ops weights num_group =
     IOLogicalSwapDesc (GetWeightDesc ops weights num_group) num_group"

subsection \<open>Primitive descriptors and the tensors of a call\<close>

text \<open>
  A primitive descriptor answers queries for the memory descriptors it chose; the records
  hold the answers to the queries that the adapters make. A primitive is built from its
  primitive descriptor.
\<close>

record deconv_fwd_pd_t =
  src_desc :: memory_desc
  weights_desc :: memory_desc
  dst_desc :: memory_desc

record deconv_bwd_data_pd_t =
  diff_src_desc :: memory_desc
  weights_desc :: memory_desc
  diff_dst_desc :: memory_desc

record deconv_bwd_weights_pd_t =
  src_desc :: memory_desc
  diff_weights_desc :: memory_desc
  diff_bias_desc :: memory_desc
  diff_dst_desc :: memory_desc

datatype deconv_bwd_data_t = deconv_bwd_data_t deconv_bwd_data_pd_t

datatype deconv_bwd_weights_t = deconv_bwd_weights_t deconv_bwd_weights_pd_t

text \<open>\<open>bias\<close> is a pointer that is null when the operator has no bias.\<close>

record 'arr Tensors =
  data :: 'arr
  weights :: 'arr
  bias :: "'arr option"
  out :: 'arr

definition Tensors :: "'arr \<Rightarrow> 'arr \<Rightarrow> 'arr option \<Rightarrow> 'arr \<Rightarrow> 'arr Tensors" where
  "Tensors data' weights' bias' out' =
     \<lparr>Tensors.data = data', Tensors.weights = weights', Tensors.bias = bias',
      Tensors.out = out'\<rparr>"

record 'arr ReadTensors =
  data :: 'arr
  weights :: 'arr
  bias :: "'arr option"
  out_grad :: 'arr

subsection \<open>The backward primitive holder\<close>

text \<open>The four members are shared pointers; \<open>None\<close> is an empty one.\<close>

record MKLDNNDeconvBwd =
  bwd_data_pd :: "deconv_bwd_data_pd_t option"
  bwd_weights_pd :: "deconv_bwd_weights_pd_t option"
  bwd_data :: "deconv_bwd_data_t option"
  bwd_weights :: "deconv_bwd_weights_t option"

text \<open>
  The constructor. \<open>MKLDNNDeconvFwd::CreatePrimitiveDesc\<close>, \<open>CreateDataPrimitiveDesc\<close>
  and \<open>CreateWeightsPrimitiveDesc\<close> are declared in the header and defined elsewhere, so
  they are parameters; each returns a shared pointer. The constructor dereferences
  \<open>fwd_pd\<close> for the two calls and the two new descriptors for \<open>std::make_shared\<close>.
\<close>

definition MKLDNNDeconvBwd ::
  "('p \<Rightarrow> 'arr Tensors \<Rightarrow> deconv_fwd_pd_t option) \<Rightarrow>
   ('p \<Rightarrow> 'arr ReadTensors \<Rightarrow> deconv_fwd_pd_t \<Rightarrow> deconv_bwd_data_pd_t option) \<Rightarrow>
   ('p \<Rightarrow> 'arr ReadTensors \<Rightarrow> deconv_fwd_pd_t \<Rightarrow> deconv_bwd_weights_pd_t option) \<Rightarrow>
   'p \<Rightarrow> 'arr ReadTensors \<Rightarrow> error + MKLDNNDeconvBwd" where
  "MKLDNNDeconvBwd CreatePrimitiveDesc CreateDataPrimitiveDesc CreateWeightsPrimitiveDesc
       param read_tensors =
     (case CreatePrimitiveDesc param
             (Tensors (ReadTensors.data read_tensors) (ReadTensors.weights read_tensors)
                      (ReadTensors.bias read_tensors) (out_grad read_tensors)) of
        None \<Rightarrow> Inl NullPointer
      | Some fwd_pd \<Rightarrow>
          (let data_pd = CreateDataPrimitiveDesc param read_tensors fwd_pd;
               weights_pd = CreateWeightsPrimitiveDesc param read_tensors fwd_pd
           in case data_pd of
                None \<Rightarrow> Inl NullPointer
              | Some dpd \<Rightarrow>
                  (case weights_pd of
                     None \<Rightarrow> Inl NullPointer
                   | Some wpd \<Rightarrow>
                       Inr \<lparr>bwd_data_pd = data_pd, bwd_weights_pd = weights_pd,
                            bwd_data = Some (deconv_bwd_data_t dpd),
                            bwd_weights = Some (deconv_bwd_weights_t wpd)\<rparr>)))"

text \<open>
  \<open>IOSwapWeightsTensors\<close>. \<open>OpReqType\<close> is an enumeration declared outside the
  sources; a request is its integer value and \<open>if (req[i])\<close> tests it against zero, the
  null request. The enumerators \<open>deconv::kData\<close>, \<open>deconv::kWeight\<close> and
  \<open>deconv::kBias\<close> are declared in deconvolution-inl.h, which is not among the sources:
  they are parameters. \<open>||\<close> and \<open>&&\<close> evaluate their right operand only when the
  left one does not decide. The result is the pair of the arrays \<open>weights\<close> and
  \<open>weights_grad\<close> after the call.
\<close>

type_synonym OpReqType = int

definition req_at :: "OpReqType list \<Rightarrow> nat \<Rightarrow> error + bool" where
  "req_at req i = (if i < length req then Inr (req ! i \<noteq> 0) else Inl OutOfRange)"

definition IOSwapWeightsTensors ::
  "'arr NDArray_ops \<Rightarrow> nat \<Rightarrow> nat \<Rightarrow> nat \<Rightarrow> 32 word \<Rightarrow> OpReqType list \<Rightarrow> 'arr \<Rightarrow> 'arr
     \<Rightarrow> error + ('arr \<times> 'arr)" where
  "IOSwapWeightsTensors ops kData kWeight kBias num_group req weights_nd weights_grad_nd =
     (case req_at req kData of
        Inl e \<Rightarrow> Inl e
      | Inr want_data \<Rightarrow>
          (case (if want_data then IOLogicalSwapMKLDNNMem ops weights_nd num_group
                 else Inr weights_nd) of
             Inl e \<Rightarrow> Inl e
           | Inr weights' \<Rightarrow>
               (case (case req_at req kWeight of
                        Inl e \<Rightarrow> Inl e
                      | Inr True \<Rightarrow> Inr True
                      | Inr False \<Rightarrow>
                          (if length req < kBias then req_at req kBias else Inr False)) of
                  Inl e \<Rightarrow> Inl e
                | Inr True \<Rightarrow>
                    (case IOLogicalSwapMKLDNNMem ops weights_grad_nd num_group of
                       Inl e \<Rightarrow> Inl e
                     | Inr weights_grad' \<Rightarrow> Inr (weights', weights_grad'))
                | Inr False \<Rightarrow> Inr (weights', weights_grad_nd))))"

text \<open>
  The two overloads of \<open>OutGradMem\<close>: the memory of the output gradient for the gradient
  of the data, and for the gradient of the weights, which reuses \<open>out_grad_mem\<close> when
  it has the right descriptor.
\<close>

definition OutGradMem_data ::
  "'arr NDArray_ops \<Rightarrow> MKLDNNDeconvBwd \<Rightarrow> 'arr \<Rightarrow> error + memory_ptr" where
  "OutGradMem_data ops self out_grad_nd =
     (case bwd_data_pd self of
        None \<Rightarrow> Inl NullPointer
      | Some pd \<Rightarrow>
          Inr (GetMKLDNNDataReorder ops out_grad_nd (deconv_bwd_data_pd_t.diff_dst_desc pd)))"

definition OutGradMem ::
  "'arr NDArray_ops \<Rightarrow> MKLDNNDeconvBwd \<Rightarrow> 'arr \<Rightarrow> memory_ptr \<Rightarrow> error + memory_ptr" where
  "OutGradMem ops self out_grad_nd out_grad_mem =
     (case bwd_weights_pd self of
        None \<Rightarrow> Inl NullPointer
      | Some pd \<Rightarrow>
          (case out_grad_mem of
             Some p \<Rightarrow>
               (if memory_get_desc ops p = deconv_bwd_weights_pd_t.diff_dst_desc pd
                then Inr out_grad_mem
                else Inr (GetMKLDNNDataReorder ops out_grad_nd
                            (deconv_bwd_weights_pd_t.diff_dst_desc pd)))
           | None \<Rightarrow>
               Inr (GetMKLDNNDataReorder ops out_grad_nd
                      (deconv_bwd_weights_pd_t.diff_dst_desc pd))))"

subsection \<open>The creator of operation descriptors\<close>

record DeconvDescCreator =
  data_md :: memory_desc
  weights_md :: memory_desc
  bias_md :: memory_desc
  out_md :: memory_desc
  strides :: "int list"
  padding :: "int list"
  dilates :: "int list"





section \<open>Reshape operator (mkldnn\_reshape-inl.h)\<close>

text \<open>
  The header declares the class \<open>MKLDNNReshapeFwd\<close> with its members \<open>out_\<close>,
  \<open>temp_\<close> and \<open>prims_\<close>. An array is a view with a shape on an underlying buffer,
  named by its address; the store gives the elements held by each buffer.
\<close>

record reshape_array =
  buffer :: nat
  shape :: "int list"

type_synonym 'e store = "nat \<Rightarrow> 'e list"

definition elements :: "'e store \<Rightarrow> reshape_array \<Rightarrow> 'e list" where
  "elements st arr = st (buffer arr)"

text \<open>
  Modelled from the spec: the constructor and \<open>Execute\<close> of \<open>MKLDNNReshapeFwd\<close> are
  only declared in the header; their bodies are in a file that is not among the sources.
  The spec describes them as "a reshape operator that reuses underlying buffers without
  copying when format permits". Which formats permit the reuse is not said, so the test is
  a parameter, and so is what the operator does when the format does not permit it (running
  the primitives kept in \<open>prims_\<close>).
\<close>

definition MKLDNNReshapeFwd_Execute ::
  "(reshape_array \<Rightarrow> bool) \<Rightarrow>
   (reshape_array \<Rightarrow> reshape_array \<Rightarrow> 'e store \<Rightarrow> reshape_array \<times> 'e store) \<Rightarrow>
   reshape_array \<Rightarrow> reshape_array \<Rightarrow> 'e store \<Rightarrow> reshape_array \<times> 'e store" where
  "MKLDNNReshapeFwd_Execute format_permits run_prims input output st =
     (if format_permits input then (output\<lparr>buffer := buffer input\<rparr>, st)
      else run_prims input output st)"


section \<open>Example inputs\<close>

text \<open>
  Concrete descriptors for the examples below: a weight of 8 output and 4 input channels
  with a 3 x 3 kernel laid out as oihw, a grouped weight laid out as goihw, a bias of 8
  entries, and a creator for a 4 x 4 input; a forward primitive descriptor over them, read
  tensors named by numbers, a backward holder, and a store with one buffer of six elements.
  In \<open>example_ops\<close> an array is represented by the descriptor of its memory. \<open>example_GetMemDescSize\<close> is a sample of
  the size function that \<open>CheckImplSizeReq\<close> is given: the bytes of the logical tensor
  with elements of 4 bytes.
\<close>

definition example_oihw :: memory_desc where
  "example_oihw = \<lparr>axes = [(8, 36), (4, 9), (3, 3), (3, 1)], data_type = 3\<rparr>"

definition example_goihw :: memory_desc where
  "example_goihw = \<lparr>axes = [(2, 144), (4, 36), (4, 9), (3, 3), (3, 1)], data_type = 3\<rparr>"

definition example_bias_md :: memory_desc where
  "example_bias_md = \<lparr>axes = [(8, 1)], data_type = 3\<rparr>"


definition example_creator :: DeconvDescCreator where
  "example_creator =
     \<lparr>data_md = \<lparr>axes = [(1, 64), (4, 16), (4, 4), (4, 1)], data_type = 3\<rparr>,
      weights_md = \<lparr>axes = [(8, 9), (4, 72), (3, 3), (3, 1)], data_type = 3\<rparr>,
      bias_md = example_bias_md,
      out_md = \<lparr>axes = [(1, 288), (8, 36), (6, 6), (6, 1)], data_type = 3\<rparr>,
      strides = [1, 1], padding = [0, 0], dilates = [0, 0]\<rparr>"

definition example_fwd_pd :: deconv_fwd_pd_t where
  "example_fwd_pd =
     \<lparr>deconv_fwd_pd_t.src_desc = data_md example_creator,
      deconv_fwd_pd_t.weights_desc = example_oihw,
      dst_desc = out_md example_creator\<rparr>"

definition example_read_tensors :: "nat ReadTensors" where
  "example_read_tensors =
     \<lparr>ReadTensors.data = 10, ReadTensors.weights = 11, ReadTensors.bias = None, out_grad = 12\<rparr>"

definition example_ops :: "memory_desc NDArray_ops" where
  "example_ops =
     \<lparr>IsMKLDNNData = (\<lambda>arr. True),
      GetMKLDNNData_get_desc = (\<lambda>arr. arr),
      GetWeightDesc = (\<lambda>arr num_group. arr),
      default_format_desc = (\<lambda>desc. desc),
      UpdateMKLDNNMemDesc = (\<lambda>arr desc. desc),
      GetMKLDNNDataReorder = (\<lambda>arr desc. Some 7),
      memory_get_desc = (\<lambda>p. if p = 0 then out_md example_creator else example_bias_md)\<rparr>"

definition example_bwd :: MKLDNNDeconvBwd where
  "example_bwd =
     \<lparr>bwd_data_pd = None,
      bwd_weights_pd =
        Some \<lparr>deconv_bwd_weights_pd_t.src_desc = data_md example_creator,
              diff_weights_desc = example_oihw,
              diff_bias_desc = example_bias_md,
              deconv_bwd_weights_pd_t.diff_dst_desc = out_md example_creator\<rparr>,
      bwd_data = None, bwd_weights = None\<rparr>"

definition example_store :: "int store" where
  "example_store a = (if a = 5 then [1, 2, 3, 4, 5, 6] else [])"


section \<open>Properties of the Rayleigh registration\<close>

lemmas rayleigh_defs =
  npi_rayleigh_num_inputs_def npi_rayleigh_num_outputs_def npi_rayleigh_FNumVisibleOutputs_def
  npi_rayleigh_FListInputNames_def backward_broadcast_rayleigh_num_inputs_def
  backward_broadcast_rayleigh_num_outputs_def has_value_def

text \<open>
  Claim C4. For every parsed parameter the registered arities agree: the forward operator
  has 1 input without a scale and 0 with one; \<open>FListInputNames\<close> returns exactly that many
  names (\<open>input1\<close>, or none); it has 2 outputs, 1 of them visible; the backward operator has
  5 inputs and 1 output without a scale, 4 and 0 with one; and the number of outputs of the
  backward operator is the number of inputs of the forward operator.
\<close>

theorem rayleigh_arities_consistent:
  "npi_rayleigh_num_inputs attrs = (if scale (parsed attrs) = None then 1 else 0)
   \<and> npi_rayleigh_FListInputNames attrs = (if scale (parsed attrs) = None then [''input1''] else [])
   \<and> int (length (npi_rayleigh_FListInputNames attrs)) = npi_rayleigh_num_inputs attrs
   \<and> npi_rayleigh_num_outputs = 2
   \<and> npi_rayleigh_FNumVisibleOutputs attrs = 1
   \<and> backward_broadcast_rayleigh_num_inputs attrs = (if scale (parsed attrs) = None then 5 else 4)
   \<and> backward_broadcast_rayleigh_num_outputs attrs = (if scale (parsed attrs) = None then 1 else 0)
   \<and> backward_broadcast_rayleigh_num_outputs attrs = npi_rayleigh_num_inputs attrs"
  by (simp add: rayleigh_defs)

theorem rayleigh_arities_consistent_witness:
  "npi_rayleigh_num_inputs \<lparr>parsed = \<lparr>scale = Some (2 :: int)\<rparr>\<rparr> = 0
   \<and> npi_rayleigh_FListInputNames \<lparr>parsed = \<lparr>scale = Some (2 :: int)\<rparr>\<rparr> = []
   \<and> backward_broadcast_rayleigh_num_inputs \<lparr>parsed = \<lparr>scale = Some (2 :: int)\<rparr>\<rparr> = 4
   \<and> backward_broadcast_rayleigh_num_outputs \<lparr>parsed = \<lparr>scale = Some (2 :: int)\<rparr>\<rparr> = 0
   \<and> npi_rayleigh_num_inputs \<lparr>parsed = \<lparr>scale = (None :: int option)\<rparr>\<rparr> = 1
   \<and> npi_rayleigh_FListInputNames \<lparr>parsed = \<lparr>scale = (None :: int option)\<rparr>\<rparr> = [''input1'']
   \<and> backward_broadcast_rayleigh_num_inputs \<lparr>parsed = \<lparr>scale = (None :: int option)\<rparr>\<rparr> = 5
   \<and> backward_broadcast_rayleigh_num_outputs \<lparr>parsed = \<lparr>scale = (None :: int option)\<rparr>\<rparr> = 1"
  using rayleigh_arities_consistent [of "\<lparr>parsed = \<lparr>scale = Some (2 :: int)\<rparr>\<rparr>"]
        rayleigh_arities_consistent [of "\<lparr>parsed = \<lparr>scale = (None :: int option)\<rparr>\<rparr>"]
  by simp

text \<open>
  Claim C5. The \<open>FInferType\<close> callback of \<open>_npi_rayleigh\<close> always succeeds: whatever the
  input types are, on the two output slots that the operator registers it leaves float32 in
  both and returns true; the input types are not touched.
\<close>

theorem rayleigh_FInferType_float32:
  "int (length out_attrs) = npi_rayleigh_num_outputs \<Longrightarrow>
   npi_rayleigh_FInferType kFloat32 attrs in_attrs out_attrs
     = Inr (in_attrs, [kFloat32, kFloat32], True)"
proof -
  assume len: "int (length out_attrs) = npi_rayleigh_num_outputs"
  then have "length out_attrs = 2"
    by (simp add: npi_rayleigh_num_outputs_def)
  then obtain a b where "out_attrs = [a, b]"
    by (cases out_attrs; cases "tl out_attrs") auto
  then show ?thesis
    by (simp add: npi_rayleigh_FInferType_def)
qed

theorem rayleigh_FInferType_float32_witness:
  "int (length [-1, -1 :: int]) = npi_rayleigh_num_outputs
   \<and> npi_rayleigh_FInferType 0 \<lparr>parsed = \<lparr>scale = Some (2 :: int)\<rparr>\<rparr> [4] [-1, -1]
       = Inr ([4], [0, 0], True)"
proof -
  have h: "int (length [-1, -1 :: int]) = npi_rayleigh_num_outputs"
    by (simp add: npi_rayleigh_num_outputs_def)
  show ?thesis
    using h rayleigh_FInferType_float32 [OF h, of 0 "\<lparr>parsed = \<lparr>scale = Some (2 :: int)\<rparr>\<rparr>" "[4]"]
    by simp
qed


section \<open>The logical swap exchanges two axes\<close>

text \<open>
  The loop of \<open>permute_axes\<close> places axis \<open>i\<close> at position \<open>p i\<close>; when \<open>p\<close>
  is injective, position \<open>p i\<close> of the result holds axis \<open>i\<close>.
\<close>

lemma fold_place_length:
  "length (fold (\<lambda>i new. new[p i := xs ! i]) js acc) = length acc"
  by (induction js arbitrary: acc) auto

lemma fold_place_nth:
  assumes "inj_on p {..<k}" and "i < k" and "p i < length acc"
  shows "fold (\<lambda>i new. new[p i := xs ! i]) [0..<k] acc ! p i = xs ! i"
  using assms
proof (induction k)
  case 0
  then show ?case by simp
next
  case (Suc k)
  let ?f = "fold (\<lambda>i new. new[p i := xs ! i]) [0..<k] acc"
  have len: "length ?f = length acc" by (rule fold_place_length)
  show ?case
  proof (cases "i = k")
    case True
    with Suc.prems len show ?thesis by simp
  next
    case False
    with Suc.prems have ik: "i < k" by simp
    from Suc.prems(1) have inj: "inj_on p {..<k}"
      by (rule inj_on_subset) auto
    have "p k \<noteq> p i"
    proof
      assume "p k = p i"
      with Suc.prems(1) have "k = i" by (rule inj_onD) (use ik in auto)
      with ik show False by simp
    qed
    with Suc.IH [OF inj ik Suc.prems(3)] show ?thesis by simp
  qed
qed

lemma iota_transposed_sort:
  assumes "a < n" and "b < n"
  shows "sort ((map int [0..<n])[a := int b, b := int a]) = map int [0..<n]"
proof (rule properties_for_sort)
  let ?xs = "map int [0..<n]"
  have sw: "mset (?xs[a := ?xs ! b, b := ?xs ! a]) = mset ?xs"
    by (rule mset_swap) (use assms in simp_all)
  have "?xs ! a = int a" "?xs ! b = int b" using assms by simp_all
  with sw show "mset ?xs = mset (?xs[a := int b, b := int a])" by (simp only:)
  show "sorted ?xs" by (simp add: sorted_map strict_sorted_iff[symmetric] sorted_wrt_map)
qed

lemma permute_axes_transposition:
  assumes n: "n = length (axes desc)" and a: "a < n" and b: "b < n"
  shows "permute_axes desc ((map int [0..<n])[a := int b, b := int a])
           = Inr (desc\<lparr>axes := (axes desc)[b := axes desc ! a, a := axes desc ! b]\<rparr>)"
proof -
  let ?xs = "axes desc"
  let ?order = "(map int [0..<n])[a := int b, b := int a]"
  let ?p = "\<lambda>i. nat (?order ! i)"
  let ?f = "fold (\<lambda>i new. new[?p i := ?xs ! i]) [0..<n] ?xs"
  have p_eq: "?p i = (if i = b then a else if i = a then b else i)" if "i < n" for i
    using that a b by (simp add: nth_list_update)
  have p_lt: "?p i < n" if "i < n" for i
    using that a b by (simp add: p_eq)
  have p_inv: "?p (?p i) = i" if "i < n" for i
    using that a b by (simp add: p_eq p_lt)
  have inj: "inj_on ?p {..<n}"
    by (rule inj_on_inverseI [where g = ?p]) (simp add: p_inv)
  have len: "length ?f = n"
    by (simp add: fold_place_length n)
  have nth: "?f ! j = ?xs[b := ?xs ! a, a := ?xs ! b] ! j" if j: "j < n" for j
  proof -
    have "?f ! ?p (?p j) = ?xs ! ?p j"
      by (rule fold_place_nth [OF inj]) (use j p_lt n in auto)
    then have "?f ! j = ?xs ! ?p j"
      by (simp only: p_inv [OF j])
    also have "\<dots> = ?xs[b := ?xs ! a, a := ?xs ! b] ! j"
      using j a b n by (simp add: p_eq nth_list_update)
    finally show ?thesis .
  qed
  have "?f = ?xs[b := ?xs ! a, a := ?xs ! b]"
    by (rule nth_equalityI) (use len n nth in auto)
  then show ?thesis
    using iota_transposed_sort [OF a b] n by (simp add: permute_axes_def)
qed

lemma list_exchange_twice:
  assumes "a < length xs" and "b < length xs"
  shows "(xs[b := xs ! a, a := xs ! b])
           [b := xs[b := xs ! a, a := xs ! b] ! a, a := xs[b := xs ! a, a := xs ! b] ! b] = xs"
proof (rule nth_equalityI)
  show "length ((xs[b := xs ! a, a := xs ! b])
           [b := xs[b := xs ! a, a := xs ! b] ! a, a := xs[b := xs ! a, a := xs ! b] ! b])
         = length xs"
    by simp
next
  fix i
  assume "i < length ((xs[b := xs ! a, a := xs ! b])
           [b := xs[b := xs ! a, a := xs ! b] ! a, a := xs[b := xs ! a, a := xs ! b] ! b])"
  with assms show "(xs[b := xs ! a, a := xs ! b])
           [b := xs[b := xs ! a, a := xs ! b] ! a, a := xs[b := xs ! a, a := xs ! b] ! b] ! i
         = xs ! i"
    by (cases "i = a"; cases "i = b") (simp_all add: nth_list_update)
qed

lemma IOLogicalSwapDesc_swapped:
  assumes "(if 1 < num_group then 1 else 0) + 2 \<le> length (axes desc)"
  shows "IOLogicalSwapDesc desc num_group
           = Inr (desc\<lparr>axes := (axes desc)
                    [(if 1 < num_group then 1 else 0) + 1 := axes desc ! (if 1 < num_group then 1 else 0),
                     (if 1 < num_group then 1 else 0) := axes desc ! ((if 1 < num_group then 1 else 0) + 1)]\<rparr>)"
proof -
  define off :: nat where "off = (if 1 < num_group then 1 else 0)"
  define n where "n = length (axes desc)"
  have a: "off < n" and b: "off + 1 < n"
    using assms by (simp_all add: off_def n_def)
  have "IOLogicalSwapDesc desc num_group
          = permute_axes desc ((map int [0..<n])[off := int (off + 1), off + 1 := int off])"
    using a b by (simp add: IOLogicalSwapDesc_def ndims_def off_def n_def Let_def)
  also have "\<dots> = Inr (desc\<lparr>axes := (axes desc)[off + 1 := axes desc ! off, off := axes desc ! (off + 1)]\<rparr>)"
    by (rule permute_axes_transposition [OF n_def a b])
  finally show ?thesis by (simp add: off_def)
qed

text \<open>
  Claim C2. For a descriptor with at least 2 axes (at least 3 when \<open>num_group > 1\<close>),
  \<open>IOLogicalSwapDesc\<close> returns a descriptor in which exactly the axes of the input and
  the output channels are exchanged, axes 0 and 1 when \<open>num_group \<le> 1\<close> and axes 1 and 2
  when \<open>num_group > 1\<close>; every other axis keeps its position, and so do the number of axes
  and the data type. In the examples oihw becomes iohw and goihw becomes giohw.
\<close>

theorem IOLogicalSwapDesc_exchanges_channel_axes:
  assumes "2 \<le> ndims desc" and "1 < num_group \<longrightarrow> 3 \<le> ndims desc"
  shows "\<exists>swapped. IOLogicalSwapDesc desc num_group = Inr swapped
           \<and> ndims swapped = ndims desc
           \<and> data_type swapped = data_type desc
           \<and> (let offset = (if 1 < num_group then 1 else 0)
              in axes swapped ! offset = axes desc ! (offset + 1)
                 \<and> axes swapped ! (offset + 1) = axes desc ! offset
                 \<and> (\<forall>i < length (axes desc).
                       i \<noteq> offset \<longrightarrow> i \<noteq> offset + 1 \<longrightarrow> axes swapped ! i = axes desc ! i))"
proof -
  have len: "(if 1 < num_group then 1 else 0) + 2 \<le> length (axes desc)"
    using assms by (auto simp: ndims_def)
  show ?thesis
    unfolding IOLogicalSwapDesc_swapped [OF len]
    using len by (auto simp: ndims_def Let_def)
qed

theorem IOLogicalSwapDesc_exchanges_channel_axes_witness:
  "2 \<le> ndims example_oihw
   \<and> IOLogicalSwapDesc example_oihw 1 = Inr \<lparr>axes = [(4, 9), (8, 36), (3, 3), (3, 1)], data_type = 3\<rparr>
   \<and> 3 \<le> ndims example_goihw
   \<and> IOLogicalSwapDesc example_goihw 2
       = Inr \<lparr>axes = [(2, 144), (4, 9), (4, 36), (3, 3), (3, 1)], data_type = 3\<rparr>"
proof -
  have h1: "2 \<le> ndims example_oihw" and h1': "(1 :: 32 word) < 1 \<longrightarrow> 3 \<le> ndims example_oihw"
   and h2: "2 \<le> ndims example_goihw" and h2': "(1 :: 32 word) < 2 \<longrightarrow> 3 \<le> ndims example_goihw"
    by (simp_all add: ndims_def example_oihw_def example_goihw_def)
  have e1: "IOLogicalSwapDesc example_oihw 1 = Inr \<lparr>axes = [(4, 9), (8, 36), (3, 3), (3, 1)], data_type = 3\<rparr>"
    by (simp add: IOLogicalSwapDesc_def permute_axes_def ndims_def example_oihw_def
        upt_conv_Cons)
  have e2: "IOLogicalSwapDesc example_goihw 2
       = Inr \<lparr>axes = [(2, 144), (4, 9), (4, 36), (3, 3), (3, 1)], data_type = 3\<rparr>"
    by (simp add: IOLogicalSwapDesc_def permute_axes_def ndims_def example_goihw_def
        upt_conv_Cons)
  from IOLogicalSwapDesc_exchanges_channel_axes [OF h1 h1']
       IOLogicalSwapDesc_exchanges_channel_axes [OF h2 h2']
       h1 h2 e1 e2
  show ?thesis by (simp add: ndims_def example_goihw_def)
qed

text \<open>
  Claim C7, as stated for every descriptor, fails on a descriptor with a single axis:
  \<open>order\<close> has one entry and \<open>std::swap\<close> reaches for \<open>order[1]\<close>.
\<close>

theorem IOLogicalSwapDesc_involution_counterexample:
  "IOLogicalSwapDesc example_bias_md 1 = Inl OutOfRange
   \<and> (case IOLogicalSwapDesc example_bias_md 1 of
        Inl e \<Rightarrow> Inl e
      | Inr swapped \<Rightarrow> IOLogicalSwapDesc swapped 1) \<noteq> Inr example_bias_md"
  by (simp add: IOLogicalSwapDesc_def ndims_def example_bias_md_def)

text \<open>
  Claim C7, amended. For a descriptor with at least 2 axes (at least 3 when
  \<open>num_group > 1\<close>), \<open>IOLogicalSwapDesc\<close> succeeds and applying it to its result with
  the same \<open>num_group\<close> gives the descriptor back.
\<close>

theorem IOLogicalSwapDesc_involution:
  assumes "2 \<le> ndims desc" and "1 < num_group \<longrightarrow> 3 \<le> ndims desc"
  shows "\<exists>swapped. IOLogicalSwapDesc desc num_group = Inr swapped
           \<and> IOLogicalSwapDesc swapped num_group = Inr desc"
proof -
  define off :: nat where "off = (if 1 < num_group then 1 else 0)"
  define ys where "ys = (axes desc)[off + 1 := axes desc ! off, off := axes desc ! (off + 1)]"
  have len: "off + 2 \<le> length (axes desc)"
    using assms by (auto simp: ndims_def off_def)
  then have len': "off + 2 \<le> length (axes (desc\<lparr>axes := ys\<rparr>))"
    by (simp add: ys_def)
  have first: "IOLogicalSwapDesc desc num_group = Inr (desc\<lparr>axes := ys\<rparr>)"
    using IOLogicalSwapDesc_swapped [of num_group desc] len
    by (simp add: off_def ys_def)
  have undo: "ys[off + 1 := ys ! off, off := ys ! (off + 1)] = axes desc"
    unfolding ys_def by (rule list_exchange_twice) (use len in simp_all)
  have "IOLogicalSwapDesc (desc\<lparr>axes := ys\<rparr>) num_group
          = Inr (desc\<lparr>axes := ys\<rparr>\<lparr>axes := ys[off + 1 := ys ! off, off := ys ! (off + 1)]\<rparr>)"
    using IOLogicalSwapDesc_swapped [of num_group "desc\<lparr>axes := ys\<rparr>"] len'
    by (simp add: off_def)
  also have "\<dots> = Inr desc"
    using undo by simp
  finally show ?thesis
    using first by blast
qed

theorem IOLogicalSwapDesc_involution_witness:
  "2 \<le> ndims example_goihw \<and> ((1 :: 32 word) < 2 \<and> 3 \<le> ndims example_goihw)
   \<and> (\<exists>swapped. IOLogicalSwapDesc example_goihw 2 = Inr swapped
         \<and> IOLogicalSwapDesc swapped 2 = Inr example_goihw)"
proof -
  have h: "2 \<le> ndims example_goihw" and h': "(1 :: 32 word) < 2 \<longrightarrow> 3 \<le> ndims example_goihw"
    by (simp_all add: ndims_def example_goihw_def)
  from IOLogicalSwapDesc_involution [OF h h'] h h' show ?thesis by simp
qed


section \<open>The size requirements of the chosen implementation\<close>

text \<open>
  The arguments of \<open>CheckImplSizeReq\<close> are the size requirements of the implementation
  that the library chose (comment at \<open>ImposePlainWherePadding\<close>); a padded format
  requires more memory than the actual size of the tensor, never less (comment in
  \<open>CheckImplSizeReq\<close>). So a requirement is not below the size of the planned buffer.
\<close>




section \<open>The backward primitive holder\<close>

text \<open>
  Claim C3. The constructor of \<open>MKLDNNDeconvBwd\<close> first creates the forward primitive
  descriptor, for the same parameters and the tensors data, weights and bias with
  \<open>out_grad\<close> in the place of the output, and passes that one descriptor to both
  \<open>CreateDataPrimitiveDesc\<close> and \<open>CreateWeightsPrimitiveDesc\<close>; the two backward
  primitive descriptors it keeps are the results of these two calls. The constructor yields
  an object exactly when the three calls return descriptors.
\<close>

theorem MKLDNNDeconvBwd_passes_fwd_pd:
  "MKLDNNDeconvBwd CreatePrimitiveDesc CreateDataPrimitiveDesc CreateWeightsPrimitiveDesc
       param read_tensors = Inr bwd
   \<longleftrightarrow> (\<exists>fwd_pd data_pd weights_pd.
          CreatePrimitiveDesc param
            (Tensors (ReadTensors.data read_tensors) (ReadTensors.weights read_tensors)
                     (ReadTensors.bias read_tensors) (out_grad read_tensors)) = Some fwd_pd
        \<and> CreateDataPrimitiveDesc param read_tensors fwd_pd = Some data_pd
        \<and> CreateWeightsPrimitiveDesc param read_tensors fwd_pd = Some weights_pd
        \<and> bwd = \<lparr>bwd_data_pd = Some data_pd, bwd_weights_pd = Some weights_pd,
                  bwd_data = Some (deconv_bwd_data_t data_pd),
                  bwd_weights = Some (deconv_bwd_weights_t weights_pd)\<rparr>)"
  by (auto simp: MKLDNNDeconvBwd_def Let_def split: option.splits)

theorem MKLDNNDeconvBwd_passes_fwd_pd_witness:
  "MKLDNNDeconvBwd
       (\<lambda>param tensors. if Tensors.out tensors = (12 :: nat) then Some example_fwd_pd else None)
       (\<lambda>param read_tensors fwd_pd.
          Some \<lparr>diff_src_desc = deconv_fwd_pd_t.src_desc fwd_pd,
                deconv_bwd_data_pd_t.weights_desc = deconv_fwd_pd_t.weights_desc fwd_pd,
                deconv_bwd_data_pd_t.diff_dst_desc = dst_desc fwd_pd\<rparr>)
       (\<lambda>param read_tensors fwd_pd.
          Some \<lparr>deconv_bwd_weights_pd_t.src_desc = deconv_fwd_pd_t.src_desc fwd_pd,
                diff_weights_desc = deconv_fwd_pd_t.weights_desc fwd_pd,
                diff_bias_desc = example_bias_md,
                deconv_bwd_weights_pd_t.diff_dst_desc = dst_desc fwd_pd\<rparr>)
       () example_read_tensors
     = Inr \<lparr>bwd_data_pd =
              Some \<lparr>diff_src_desc = data_md example_creator,
                    deconv_bwd_data_pd_t.weights_desc = example_oihw,
                    deconv_bwd_data_pd_t.diff_dst_desc = out_md example_creator\<rparr>,
            bwd_weights_pd =
              Some \<lparr>deconv_bwd_weights_pd_t.src_desc = data_md example_creator,
                    diff_weights_desc = example_oihw,
                    diff_bias_desc = example_bias_md,
                    deconv_bwd_weights_pd_t.diff_dst_desc = out_md example_creator\<rparr>,
            bwd_data =
              Some (deconv_bwd_data_t
                     \<lparr>diff_src_desc = data_md example_creator,
                      deconv_bwd_data_pd_t.weights_desc = example_oihw,
                      deconv_bwd_data_pd_t.diff_dst_desc = out_md example_creator\<rparr>),
            bwd_weights =
              Some (deconv_bwd_weights_t
                     \<lparr>deconv_bwd_weights_pd_t.src_desc = data_md example_creator,
                      diff_weights_desc = example_oihw,
                      diff_bias_desc = example_bias_md,
                      deconv_bwd_weights_pd_t.diff_dst_desc = out_md example_creator\<rparr>)\<rparr>"
  unfolding MKLDNNDeconvBwd_passes_fwd_pd
  by (simp add: Tensors_def example_read_tensors_def example_fwd_pd_def)

text \<open>
  Claim C8. For a request vector of at least \<open>kBias + 1\<close> entries (the enumerators of
  the data and of the weight come before \<open>kBias\<close>), the clause
  \<open>req.size() < deconv::kBias && req[deconv::kBias]\<close> is false and \<open>req[kBias]\<close> is
  not read; \<open>IOSwapWeightsTensors\<close> behaves as if its second condition were
  \<open>req[kWeight]\<close> alone: \<open>weights_grad\<close> is swapped if and only if \<open>req[kWeight]\<close>
  is not the null request, whatever the request for the bias is, and no read of \<open>req\<close> is
  out of range.
\<close>

theorem IOSwapWeightsTensors_bias_clause_dead:
  assumes "kBias + 1 \<le> length req" and "kData < kBias" and "kWeight < kBias"
  shows "(if length req < kBias then req_at req kBias else Inr False) = Inr False
         \<and> IOSwapWeightsTensors ops kData kWeight kBias num_group req weights_nd weights_grad_nd
             = (case (if req ! kData \<noteq> 0 then IOLogicalSwapMKLDNNMem ops weights_nd num_group
                      else Inr weights_nd) of
                  Inl e \<Rightarrow> Inl e
                | Inr weights' \<Rightarrow>
                    (case (if req ! kWeight \<noteq> 0
                           then IOLogicalSwapMKLDNNMem ops weights_grad_nd num_group
                           else Inr weights_grad_nd) of
                       Inl e \<Rightarrow> Inl e
                     | Inr weights_grad' \<Rightarrow> Inr (weights', weights_grad')))"
proof -
  from assms have d: "req_at req kData = Inr (req ! kData \<noteq> 0)"
    and w: "req_at req kWeight = Inr (req ! kWeight \<noteq> 0)"
    and clause: "\<not> length req < kBias"
    by (simp_all add: req_at_def)
  show ?thesis
    by (simp add: IOSwapWeightsTensors_def d w clause split: sum.splits)
qed

theorem IOSwapWeightsTensors_bias_clause_dead_witness:
  "(2 :: nat) + 1 \<le> length [0, 0, 1 :: int] \<and> (0 :: nat) < 2 \<and> (1 :: nat) < 2
   \<and> IOSwapWeightsTensors example_ops 0 1 2 1 [0, 0, 1] example_oihw example_oihw
       = Inr (example_oihw, example_oihw)
   \<and> IOSwapWeightsTensors example_ops 0 1 2 1 [0, 1, 0] example_oihw example_oihw
       = Inr (example_oihw, \<lparr>axes = [(4, 9), (8, 36), (3, 3), (3, 1)], data_type = 3\<rparr>)"
proof -
  have h: "(2 :: nat) + 1 \<le> length [0, 0, 1 :: int]" "(2 :: nat) + 1 \<le> length [0, 1, 0 :: int]"
    "(0 :: nat) < 2" "(1 :: nat) < 2"
    by simp_all
  have sw: "IOLogicalSwapMKLDNNMem example_ops example_oihw 1
              = Inr \<lparr>axes = [(4, 9), (8, 36), (3, 3), (3, 1)], data_type = 3\<rparr>"
    by (simp add: IOLogicalSwapMKLDNNMem_def IOLogicalSwapDesc_def permute_axes_def ndims_def
        example_ops_def example_oihw_def upt_conv_Cons)
  from IOSwapWeightsTensors_bias_clause_dead [OF h(1) h(3) h(4), of example_ops 1 example_oihw example_oihw]
       IOSwapWeightsTensors_bias_clause_dead [OF h(2) h(3) h(4), of example_ops 1 example_oihw example_oihw]
       sw
  show ?thesis by simp
qed

text \<open>
  Claim C9. \<open>OutGradMem(out_grad, out_grad_mem)\<close> returns \<open>out_grad_mem\<close> itself when
  it is not null and the descriptor of its memory equals
  \<open>bwd_weights_pd->diff_dst_desc()\<close>; in every other case it returns \<open>out_grad\<close>
  reordered to that descriptor. So, the reordered memory being another pointer than
  \<open>out_grad_mem\<close>, the pointer returned is \<open>out_grad_mem\<close> if and only if it is not
  null and has that descriptor.
\<close>

theorem OutGradMem_reuses_matching_memory:
  assumes "bwd_weights_pd self = Some pd"
  shows "OutGradMem ops self out_grad_nd out_grad_mem
           = Inr (if \<exists>p. out_grad_mem = Some p
                        \<and> memory_get_desc ops p = deconv_bwd_weights_pd_t.diff_dst_desc pd
                  then out_grad_mem
                  else GetMKLDNNDataReorder ops out_grad_nd
                         (deconv_bwd_weights_pd_t.diff_dst_desc pd))
         \<and> (GetMKLDNNDataReorder ops out_grad_nd (deconv_bwd_weights_pd_t.diff_dst_desc pd)
               \<noteq> out_grad_mem
             \<longrightarrow> (OutGradMem ops self out_grad_nd out_grad_mem = Inr out_grad_mem
                  \<longleftrightarrow> (\<exists>p. out_grad_mem = Some p
                         \<and> memory_get_desc ops p = deconv_bwd_weights_pd_t.diff_dst_desc pd)))"
  using assms by (auto simp: OutGradMem_def split: option.splits)

theorem OutGradMem_reuses_matching_memory_witness:
  "OutGradMem example_ops example_bwd example_oihw (Some 0) = Inr (Some 0)
   \<and> OutGradMem example_ops example_bwd example_oihw (Some 1) = Inr (Some 7)
   \<and> OutGradMem example_ops example_bwd example_oihw None = Inr (Some 7)"
proof -
  have pd: "bwd_weights_pd example_bwd
              = Some \<lparr>deconv_bwd_weights_pd_t.src_desc = data_md example_creator,
                      diff_weights_desc = example_oihw,
                      diff_bias_desc = example_bias_md,
                      deconv_bwd_weights_pd_t.diff_dst_desc = out_md example_creator\<rparr>"
    by (simp add: example_bwd_def)
  from OutGradMem_reuses_matching_memory [OF pd, of example_ops example_oihw "Some 0"]
       OutGradMem_reuses_matching_memory [OF pd, of example_ops example_oihw "Some 1"]
       OutGradMem_reuses_matching_memory [OF pd, of example_ops example_oihw None]
  show ?thesis
    by (simp add: example_ops_def example_creator_def example_bias_md_def)
qed


section \<open>The reshape operator reuses the buffer\<close>

text \<open>
  Claim C6. When the format of the input permits it, \<open>MKLDNNReshapeFwd::Execute\<close>
  produces its output on the buffer of the input: the output refers to the same buffer, no
  buffer of the store changes (nothing is copied), and the elements seen through the output
  are those of the input.
\<close>

theorem MKLDNNReshapeFwd_Execute_reuses_buffer:
  assumes "format_permits input"
  shows "\<exists>output' st'.
           MKLDNNReshapeFwd_Execute format_permits run_prims input output st = (output', st')
           \<and> buffer output' = buffer input
           \<and> shape output' = shape output
           \<and> st' = st
           \<and> elements st' output' = elements st input"
  using assms by (simp add: MKLDNNReshapeFwd_Execute_def elements_def)

theorem MKLDNNReshapeFwd_Execute_reuses_buffer_witness:
  "MKLDNNReshapeFwd_Execute (\<lambda>arr. True) (\<lambda>input output st. (output, st))
       \<lparr>buffer = 5, shape = [2, 3]\<rparr> \<lparr>buffer = 9, shape = [3, 2]\<rparr> example_store
     = (\<lparr>buffer = 5, shape = [3, 2]\<rparr>, example_store)
   \<and> elements example_store \<lparr>buffer = 5, shape = [3, 2]\<rparr> = [1, 2, 3, 4, 5, 6]"
proof -
  have h: "(\<lambda>arr :: reshape_array. True) \<lparr>buffer = 5, shape = [2, 3]\<rparr>"
    by simp
  from MKLDNNReshapeFwd_Execute_reuses_buffer
         [of "\<lambda>arr. True" "\<lparr>buffer = 5, shape = [2, 3]\<rparr>"
             "\<lambda>input output st. (output, st)"
             "\<lparr>buffer = 9, shape = [3, 2]\<rparr>" example_store, OF h]
  show ?thesis
    by (auto simp: elements_def example_store_def)
qed

end
